theory Spec2Isabelle
  imports Complex_Main "HOL-Library.Word" "HOL-Library.Signed_Division"
begin

unbundle bit_operations_syntax

section \<open>Machine integers\<close>

text \<open>
  Go's \<^verbatim>\<open>int64\<close> is a 64-bit two's-complement word: \<open>+\<close>, \<open>-\<close> and \<open>*\<close> wrap
  around, \<open>sint\<close> reads the signed value and \<open>x <s y\<close> is the signed comparison.
  Go's \<^verbatim>\<open>int\<close> is modelled with the same width (the 64-bit targets).
\<close>

type_synonym int64 = "64 word"

text \<open>
  Go's \<^verbatim>\<open>/\<close> and \<^verbatim>\<open>%\<close> on integers truncate towards zero, and the remainder takes
  the sign of the dividend. A zero divisor is a run-time panic; every caller below tests
  for it before using these two.
\<close>

definition quo64 :: "int64 \<Rightarrow> int64 \<Rightarrow> int64" where
  "quo64 a b = word_of_int (sint a sdiv sint b)"

definition rem64 :: "int64 \<Rightarrow> int64 \<Rightarrow> int64" where
  "rem64 a b = word_of_int (sint a smod sint b)"

definition fits64 :: "int \<Rightarrow> bool" where
  "fits64 k = (- (2 ^ 63) \<le> k \<and> k < 2 ^ 63)"

section \<open>Floating point\<close>

text \<open>
  A \<^verbatim>\<open>float64\<close> is an IEEE 754 binary64 value: a finite one is the rational it
  denotes, and every operation computes the exact result and rounds it to the nearest
  representable value, ties to even (\<open>f64_round\<close>). The sign of zero is not
  represented: no operation of the package divides by a float that can be a negative
  zero or otherwise tells the two zeros apart.
\<close>

datatype float64 = Fin rat | PInf | NInf | NaN

function bit_length :: "int \<Rightarrow> int" where
  "bit_length k = (if k \<le> 0 then 0 else 1 + bit_length (k div 2))"
  by pat_completeness auto
termination
  by (relation "measure nat") auto

definition pow2 :: "int \<Rightarrow> rat" where
  "pow2 e = (if 0 \<le> e then 2 ^ nat e else 1 / 2 ^ nat (- e))"

text \<open>\<open>floor_log2 a\<close> is the \<open>d\<close> with \<open>2 ^ d \<le> a < 2 ^ (d + 1)\<close>, for \<open>a > 0\<close>.\<close>

definition floor_log2 :: "rat \<Rightarrow> int" where
  "floor_log2 a =
     (let (p, q) = quotient_of a;
          d = bit_length p - bit_length q
      in if pow2 d \<le> a then d else d - 1)"

definition round_half_even :: "rat \<Rightarrow> int" where
  "round_half_even r =
     (let f = \<lfloor>r\<rfloor>; d = r - of_int f
      in if d < 1 / 2 then f else if 1 / 2 < d then f + 1
         else if even f then f else f + 1)"

text \<open>
  Rounding to binary64: 53 significant bits, the least exponent of a unit in the last
  place is \<open>-1074\<close> (subnormals), and the largest finite value is
  \<open>(2 ^ 53 - 1) * 2 ^ 971\<close>; a rounded value beyond it is an infinity.
\<close>

definition f64_round :: "rat \<Rightarrow> float64" where
  "f64_round x =
     (if x = 0 then Fin 0
      else let a = \<bar>x\<bar>;
               e = max (floor_log2 a - 52) (- 1074);
               m = round_half_even (a / pow2 e)
           in if 971 < e \<or> (e = 971 \<and> 2 ^ 53 \<le> m) then (if 0 < x then PInf else NInf)
              else Fin (if 0 < x then of_int m * pow2 e else - (of_int m * pow2 e)))"

fun f64_sgn :: "float64 \<Rightarrow> int" where
  "f64_sgn (Fin a) = (if 0 < a then 1 else if a < 0 then - 1 else 0)"
| "f64_sgn PInf = 1"
| "f64_sgn NInf = - 1"
| "f64_sgn NaN = 0"

definition f64_inf :: "int \<Rightarrow> float64" where
  "f64_inf s = (if 0 < s then PInf else if s < 0 then NInf else NaN)"

fun f64_mul :: "float64 \<Rightarrow> float64 \<Rightarrow> float64" where
  "f64_mul NaN y = NaN"
| "f64_mul x NaN = NaN"
| "f64_mul (Fin a) (Fin b) = f64_round (a * b)"
| "f64_mul x y = f64_inf (f64_sgn x * f64_sgn y)"

fun f64_div :: "float64 \<Rightarrow> float64 \<Rightarrow> float64" where
  "f64_div NaN y = NaN"
| "f64_div x NaN = NaN"
| "f64_div (Fin a) (Fin b) = (if b = 0 then f64_inf (f64_sgn (Fin a)) else f64_round (a / b))"
| "f64_div (Fin a) y = Fin 0"
| "f64_div x (Fin b) = f64_inf (f64_sgn x * (if b < 0 then - 1 else 1))"
| "f64_div x y = NaN"

fun f64_sub :: "float64 \<Rightarrow> float64 \<Rightarrow> float64" where
  "f64_sub NaN y = NaN"
| "f64_sub x NaN = NaN"
| "f64_sub (Fin a) (Fin b) = f64_round (a - b)"
| "f64_sub PInf PInf = NaN"
| "f64_sub NInf NInf = NaN"
| "f64_sub PInf y = PInf"
| "f64_sub NInf y = NInf"
| "f64_sub x PInf = NInf"
| "f64_sub x NInf = PInf"

text \<open>Comparisons: every comparison with a NaN is false.\<close>

fun f64_lt :: "float64 \<Rightarrow> float64 \<Rightarrow> bool" where
  "f64_lt NaN y = False"
| "f64_lt x NaN = False"
| "f64_lt (Fin a) (Fin b) = (a < b)"
| "f64_lt NInf NInf = False"
| "f64_lt NInf y = True"
| "f64_lt x NInf = False"
| "f64_lt PInf y = False"
| "f64_lt x PInf = True"

definition f64_le :: "float64 \<Rightarrow> float64 \<Rightarrow> bool" where
  "f64_le x y = (f64_lt x y \<or> (x = y \<and> x \<noteq> NaN))"

text \<open>\<^verbatim>\<open>float64(i)\<close> for an integer \<open>i\<close>: the nearest float.\<close>

definition float64_of_int64 :: "int64 \<Rightarrow> float64" where
  "float64_of_int64 i = f64_round (of_int (sint i))"

text \<open>
  \<^verbatim>\<open>int64(x)\<close> for a float \<open>x\<close> drops the fraction (truncation towards zero). When
  the value does not fit, or is not finite, the Go specification leaves the result to
  the implementation: the model gives \<open>None\<close>.
\<close>

definition int64_of_float64 :: "float64 \<Rightarrow> int64 option" where
  "int64_of_float64 x =
     (case x of
        Fin q \<Rightarrow>
          (let t = (if 0 \<le> q then \<lfloor>q\<rfloor> else \<lceil>q\<rceil>)
           in if fits64 t then Some (word_of_int t) else None)
      | _ \<Rightarrow> None)"

section \<open>The package\<close>

record Money =
  M :: int64
  C :: string

text \<open>
  The three errors of the package and the run-time panic of an integer division by
  zero. A panic is a value of the model. \<open>FloatToIntUnspecified\<close> is not a panic: it
  marks an \<^verbatim>\<open>int64(x)\<close> whose result the language leaves to the implementation, where
  the model stops following the execution.
\<close>

datatype error =
    ErrMoneyOverflow
  | ErrMoneyDivideByZero
  | ErrMoneyDecimalPlacesTooLarge
  | RuntimeDivideByZero
  | FloatToIntUnspecified

text \<open>
  The package variables. \<open>DP\<close> and \<open>DPf\<close> are the ones the package assigns; the guard
  and the rounding thresholds are never assigned and are constants here.
\<close>

record globals =
  DP :: int64
  DPf :: float64

definition Guardi :: int64 where "Guardi = 100"
definition Guard :: int64 where "Guard = Guardi"
definition Guardf :: float64 where "Guardf = float64_of_int64 Guardi"
definition Round :: float64 where "Round = f64_round (5 / 10)"
definition Roundn :: float64 where "Roundn = f64_mul Round (Fin (- 1))"
definition MAXDEC :: int64 where "MAXDEC = 18"

text \<open>The initial values: \<^verbatim>\<open>DP int64 = 100\<close>, \<^verbatim>\<open>DPf float64 = float64(DP)\<close>.\<close>

definition init_globals :: globals where
  "init_globals = \<lparr>DP = 100, DPf = float64_of_int64 100\<rparr>"

subsection \<open>Scale setters\<close>

text \<open>The loop \<^verbatim>\<open>for i := 0; i < d; i++ { newDec *= 10 }\<close>.\<close>

function newDecimal_loop :: "int64 \<Rightarrow> int64 \<Rightarrow> int64 \<Rightarrow> int64" where
  "newDecimal_loop i d newDec =
     (if i <s d then newDecimal_loop (i + 1) d (newDec * 10) else newDec)"
  by pat_completeness auto
termination
proof (relation "measure (\<lambda>(i, d, newDec). nat (sint d - sint i))")
  show "wf (measure (\<lambda>(i :: int64, d :: int64, newDec :: int64). nat (sint d - sint i)))"
    by simp
next
  fix i d newDec :: int64
  assume less: "i <s d"
  have "sint i < sint d"
    using less by (simp add: word_sless_alt)
  moreover have "sint d < 2 ^ 63"
    using sint_lt [of d] by simp
  moreover have "- (2 ^ 63) \<le> sint i"
    using sint_ge [of i] by simp
  ultimately have "sint (i + 1) = sint i + 1"
    by (simp add: sint_word_add signed_take_bit_int_eq_self)
  with \<open>sint i < sint d\<close>
  show "((i + 1, d, newDec * 10), (i, d, newDec))
      \<in> measure (\<lambda>(i, d, newDec). nat (sint d - sint i))"
    by simp
qed

definition newDecimal :: "int64 \<Rightarrow> error + int64" where
  "newDecimal d =
     (if d <s 0 then Inl ErrMoneyDivideByZero
      else if MAXDEC <s d then Inl ErrMoneyDecimalPlacesTooLarge
      else Inr (if 0 <s d then newDecimal_loop 0 d (0 + 1) else 0))"

definition SetDecimal :: "int64 \<Rightarrow> globals \<Rightarrow> globals \<times> error option" where
  "SetDecimal d g =
     (case newDecimal d of
        Inl e \<Rightarrow> (g, Some e)
      | Inr decimal \<Rightarrow> (g\<lparr>DPf := float64_of_int64 decimal, DP := decimal\<rparr>, None))"

text \<open>
  Modelled from the spec: the packages \<^verbatim>\<open>currency\<close> and \<^verbatim>\<open>locale\<close> are not among the
  sources. A record has the fields this package reads, and a directory is a parameter
  \<open>currency_Get\<close> or \<open>locale_Get\<close> that gives \<open>None\<close> where the Go lookup gives \<^verbatim>\<open>nil\<close>.
\<close>

record Currency =
  DecimalDigits :: int64
  Symbol :: string

record Locale =
  CurrencyCode :: string
  CurrencyDecimalDigits :: int64
  CurrencyGroupSizes :: "int64 list"
  CurrencyGroupSeparator :: string
  CurrencyDecimalSeparator :: string
  CurrencyPositivePattern :: string
  CurrencyNegativePattern :: string

definition SetDecimalByCurrency ::
    "(string \<Rightarrow> Currency option) \<Rightarrow> string \<Rightarrow> globals \<Rightarrow> globals \<times> error option" where
  "SetDecimalByCurrency currency_Get cur g =
     (case currency_Get cur of
        Some c \<Rightarrow>
          (case newDecimal (DecimalDigits c) of
             Inl e \<Rightarrow> (g, Some e)
           | Inr decimal \<Rightarrow> (g\<lparr>DPf := float64_of_int64 decimal, DP := decimal\<rparr>, None))
      | None \<Rightarrow> (g, None))"

definition SetDecimalByLocale ::
    "(string \<Rightarrow> Locale option) \<Rightarrow> string \<Rightarrow> globals \<Rightarrow> globals \<times> error option" where
  "SetDecimalByLocale locale_Get lce g =
     (case locale_Get lce of
        Some l \<Rightarrow>
          (case newDecimal (CurrencyDecimalDigits l) of
             Inl e \<Rightarrow> (g, Some e)
           | Inr decimal \<Rightarrow> (g\<lparr>DPf := float64_of_int64 decimal, DP := decimal\<rparr>, None))
      | None \<Rightarrow> (g, None))"

subsection \<open>Rounding\<close>

definition Rnd :: "int64 \<Rightarrow> float64 \<Rightarrow> int64" where
  "Rnd r trunc =
     (if f64_lt (Fin 0) trunc then (if f64_le Round trunc then r + 1 else r)
      else (if f64_lt trunc Roundn then r - 1 else r))"

subsection \<open>Arithmetic\<close>

text \<open>
  A method mutates its receiver and returns it. The model of a method takes the object
  of the receiver, and the object of the operand as the call finds it, and gives the
  receiver after the call. Receiver and operand are pointers and may be one object:
  \<open>Add_at\<close> and \<open>Sub_at\<close> below are the same two calls on a store of objects.
\<close>

definition Value :: "Money \<Rightarrow> int64" where
  "Value m = M m"

definition Sign :: "Money \<Rightarrow> int64" where
  "Sign m = (if M m <s 0 then - 1 else 1)"

definition Set :: "int64 \<Rightarrow> Money \<Rightarrow> Money" where
  "Set x m = m\<lparr>M := x\<rparr>"

definition Setc :: "int64 \<Rightarrow> string \<Rightarrow> Money \<Rightarrow> Money" where
  "Setc x currency m = m\<lparr>M := x, C := currency\<rparr>"

definition Neg :: "Money \<Rightarrow> Money" where
  "Neg m = (if M m \<noteq> 0 then m\<lparr>M := M m * (- 1)\<rparr> else m)"

definition Abs :: "Money \<Rightarrow> Money" where
  "Abs m = (if M m <s 0 then Neg m else m)"

definition Add :: "Money \<Rightarrow> Money \<Rightarrow> Money \<times> error option" where
  "Add m n =
     (let r = M m + M n in
      if ((r XOR M m) AND (r XOR M n)) <s 0 then (m, Some ErrMoneyOverflow)
      else (m\<lparr>M := r\<rparr>, None))"

definition Sub :: "Money \<Rightarrow> Money \<Rightarrow> Money \<times> error option" where
  "Sub m n =
     (let r = M m - M n in
      if ((r XOR M m) AND NOT (r XOR M n)) <s 0 then (m, Some ErrMoneyOverflow)
      else (m\<lparr>M := r\<rparr>, None))"

text \<open>
  A \<^verbatim>\<open>*Money\<close> is an address, and the store gives the object at each address. A call
  reads the receiver at \<open>pm\<close> and the operand at \<open>pn\<close> and assigns the receiver in the
  store; with \<open>pn = pm\<close> the operand is the receiver itself, and a later call through
  either pointer reads what was assigned.
\<close>

type_synonym store = "nat \<Rightarrow> Money"

definition Add_at :: "store \<Rightarrow> nat \<Rightarrow> nat \<Rightarrow> store \<times> error option" where
  "Add_at h pm pn = (h(pm := fst (Add (h pm) (h pn))), snd (Add (h pm) (h pn)))"

definition Sub_at :: "store \<Rightarrow> nat \<Rightarrow> nat \<Rightarrow> store \<times> error option" where
  "Sub_at h pm pn = (h(pm := fst (Sub (h pm) (h pn))), snd (Sub (h pm) (h pn)))"

definition Div :: "globals \<Rightarrow> Money \<Rightarrow> Money \<Rightarrow> error + Money" where
  "Div g m n =
     (let f = f64_div
                (f64_div (f64_mul (f64_mul Guardf (DPf g)) (float64_of_int64 (M m)))
                   (float64_of_int64 (M n)))
                Guardf
      in case int64_of_float64 f of
           None \<Rightarrow> Inl FloatToIntUnspecified
         | Some i \<Rightarrow> Inr (Set (Rnd i (f64_sub f (float64_of_int64 i))) m))"

text \<open>
  In \<open>Mulf\<close> the divisions \<^verbatim>\<open>i / Guard / DP\<close> panic when \<open>DP\<close> is zero, whatever the
  conversion before them gave, so the model tests the divisors first.
\<close>

definition Mulf :: "globals \<Rightarrow> float64 \<Rightarrow> Money \<Rightarrow> error + Money" where
  "Mulf g f m =
     (if Guard = 0 \<or> DP g = 0 then Inl RuntimeDivideByZero
      else case int64_of_float64 (f64_mul (f64_mul f Guardf) (DPf g)) of
             None \<Rightarrow> Inl FloatToIntUnspecified
           | Some c \<Rightarrow>
               (let i = M m * c;
                    r = quo64 (quo64 i Guard) (DP g)
                in Inr (Set (Rnd r
                     (f64_sub (f64_div (f64_div (float64_of_int64 i) Guardf) (DPf g))
                        (float64_of_int64 r))) m)))"

text \<open>
  \<open>Setf\<close> computes \<^verbatim>\<open>fDPf - float64(r)\<close> with \<^verbatim>\<open>fDPf := f * DPf\<close>. The language allows
  an implementation to fuse the product and the difference into one operation with a
  single rounding; \<open>fused\<close> says whether it does.
\<close>

definition Setf_trunc :: "bool \<Rightarrow> globals \<Rightarrow> float64 \<Rightarrow> int64 \<Rightarrow> float64" where
  "Setf_trunc fused g f r =
     (case (fused, f, DPf g, float64_of_int64 r) of
        (True, Fin a, Fin b, Fin c) \<Rightarrow> f64_round (a * b - c)
      | _ \<Rightarrow> f64_sub (f64_mul f (DPf g)) (float64_of_int64 r))"

definition Setf :: "bool \<Rightarrow> globals \<Rightarrow> float64 \<Rightarrow> Money \<Rightarrow> error + Money" where
  "Setf fused g f m =
     (case int64_of_float64 (f64_mul f (DPf g)) of
        None \<Rightarrow> Inl FloatToIntUnspecified
      | Some r \<Rightarrow> Inr (Set (Rnd r (Setf_trunc fused g f r)) m))"

definition Setfc :: "bool \<Rightarrow> globals \<Rightarrow> float64 \<Rightarrow> string \<Rightarrow> Money \<Rightarrow> error + Money" where
  "Setfc fused g f currency m =
     (case int64_of_float64 (f64_mul f (DPf g)) of
        None \<Rightarrow> Inl FloatToIntUnspecified
      | Some r \<Rightarrow> Inr (Setc (Rnd r (Setf_trunc fused g f r)) currency m))"

section \<open>Rendering\<close>

subsection \<open>The library functions the package calls\<close>

text \<open>
  \<^verbatim>\<open>fmt.Sprintf\<close> with the verb \<^verbatim>\<open>%d\<close> writes an integer in decimal, with a leading
  minus sign when it is negative. With \<^verbatim>\<open>%0wd\<close> the digits are padded with zeros on
  the left to at least \<open>w\<close> characters, the sign included; a longer number is written in
  full. \<open>itoa\<close> writes the digits of a number that is not negative.
\<close>

definition digit_char :: "int \<Rightarrow> char" where
  "digit_char d = ''0123456789'' ! nat d"

function itoa :: "int \<Rightarrow> string" where
  "itoa k = (if k < 10 then [digit_char k] else itoa (k div 10) @ [digit_char (k mod 10)])"
  by pat_completeness auto
termination
  by (relation "measure nat") auto

definition zero_pad :: "nat \<Rightarrow> string \<Rightarrow> string" where
  "zero_pad w ds = replicate (w - length ds) (CHR ''0'') @ ds"

definition fmt_d :: "int64 \<Rightarrow> string" where
  "fmt_d v = (if v <s 0 then ''-'' @ itoa (- sint v) else itoa (sint v))"

definition fmt_0d :: "nat \<Rightarrow> int64 \<Rightarrow> string" where
  "fmt_0d w v =
     (if v <s 0 then ''-'' @ zero_pad (w - 1) (itoa (- sint v))
      else zero_pad w (itoa (sint v)))"

text \<open>
  \<^verbatim>\<open>strings.Replace(s, old, new, -1)\<close> for a one-character \<open>old\<close>: every occurrence is
  replaced. \<^verbatim>\<open>strings.SplitN(s, sep, 2)\<close> for a one-character \<open>sep\<close>: the text before
  the first occurrence and the text after it, or \<open>s\<close> alone when there is none.
\<close>

definition strings_Replace :: "string \<Rightarrow> char \<Rightarrow> string \<Rightarrow> string" where
  "strings_Replace s old new = concat (map (\<lambda>c. if c = old then new else [c]) s)"

definition strings_SplitN2 :: "string \<Rightarrow> char \<Rightarrow> string list" where
  "strings_SplitN2 s sep =
     (if sep \<in> set s
      then [takeWhile (\<lambda>c. c \<noteq> sep) s, tl (dropWhile (\<lambda>c. c \<noteq> sep) s)]
      else [s])"

text \<open>
  \<^verbatim>\<open>int64(math.Pow10(n))\<close>: the power of ten is exact up to \<open>10 ^ 18\<close>; for a negative
  \<open>n\<close> it is below one and the conversion drops it to zero; from \<open>n = 19\<close> on it is
  beyond the range of \<^verbatim>\<open>int64\<close>, where the conversion is left to the implementation.
\<close>

definition pow10_int64 :: "int64 \<Rightarrow> int64 option" where
  "pow10_int64 n = (if n <s 0 then Some 0 else if 18 <s n then None else Some (10 ^ unat n))"

subsection \<open>String\<close>

definition String :: "globals \<Rightarrow> Money \<Rightarrow> Money \<times> (error + string)" where
  "String g m =
     (if 0 <s Sign m then
        (if DP g = 0 then (m, Inl RuntimeDivideByZero)
         else (m, Inr (fmt_d (quo64 (Value m) (DP g)) @ ''.''
                 @ fmt_0d 2 (rem64 (Value m) (DP g)) @ '' '' @ C m)))
      else
        (let m1 = Abs m in
         if DP g = 0 then (m1, Inl RuntimeDivideByZero)
         else
           (let m2 = Abs m1 in
            (m2, Inr (''-'' @ fmt_d (quo64 (Value m1) (DP g)) @ ''.''
                   @ fmt_0d 2 (rem64 (Value m2) (DP g)) @ '' '' @ C m2)))))"

subsection \<open>Format\<close>

text \<open>
  The grouping loop. It has no bound of its own: with a group size of zero the divisor
  is one and a non-zero \<open>wholeVal\<close> never changes. Not returning is the value \<open>None\<close>.
\<close>

partial_function (option) group_loop ::
    "int64 \<Rightarrow> int64 \<Rightarrow> int64 \<Rightarrow> string list \<Rightarrow> (error + string list) option" where
  "group_loop wholeVal groupDp groupSize groups =
     (if groupDp = 0 then Some (Inl RuntimeDivideByZero)
      else
        (let group = rem64 wholeVal groupDp;
             s = (if wholeVal <s groupDp then fmt_d group else fmt_0d (unat groupSize) group);
             groups' = groups @ [s];
             wholeVal' = quo64 wholeVal groupDp
         in if wholeVal' = 0 then Some (Inr groups')
            else group_loop wholeVal' groupDp groupSize groups'))"

declare group_loop.simps [code]

text \<open>The loop that writes the groups into \<open>wholeBuf\<close>, the last one first.\<close>

definition wholeBuf_String :: "string \<Rightarrow> string list \<Rightarrow> string" where
  "wholeBuf_String sep groups =
     foldl (\<lambda>buf i. (if 0 < i then buf @ sep else buf) @ groups ! (length groups - i - 1))
       [] [0..<length groups]"

text \<open>
  \<open>dp\<close> and \<open>groupDp\<close> are both computed before the first division. A zero \<open>dp\<close> makes
  that division panic whatever \<open>groupDp\<close> is, so the model looks at \<open>dp\<close> first.
\<close>

definition Format ::
    "(string \<Rightarrow> Locale option) \<Rightarrow> (string \<Rightarrow> Currency option) \<Rightarrow> globals \<Rightarrow> string \<Rightarrow> Money
      \<Rightarrow> (Money \<times> (error + string)) option" where
  "Format locale_Get currency_Get g loc m =
     (case locale_Get loc of
        None \<Rightarrow> Some (String g m)
      | Some l \<Rightarrow>
          (let currencySymbol = (case currency_Get (C m) of Some currency \<Rightarrow> Symbol currency | None \<Rightarrow> C m);
               groupSize = (if 1 \<le> length (CurrencyGroupSizes l) then CurrencyGroupSizes l ! 0 else 3)
           in case pow10_int64 (CurrencyDecimalDigits l) of
                None \<Rightarrow> Some (m, Inl FloatToIntUnspecified)
              | Some dp \<Rightarrow>
                  if dp = 0 then Some (m, Inl RuntimeDivideByZero)
                  else
                    (case pow10_int64 groupSize of
                       None \<Rightarrow> Some (m, Inl FloatToIntUnspecified)
                     | Some groupDp \<Rightarrow>
                         (let absVal = (if Sign m <s 0 then - Value m else Value m);
                              wholeVal = quo64 absVal dp;
                              decVal = rem64 absVal dp;
                              unformatted =
                                (if 0 <s CurrencyDecimalDigits l
                                 then fmt_d wholeVal @ ''.''
                                        @ fmt_0d (unat (CurrencyDecimalDigits l)) decVal
                                 else fmt_d wholeVal)
                          in case group_loop wholeVal groupDp groupSize [] of
                               None \<Rightarrow> None
                             | Some (Inl e) \<Rightarrow> Some (m, Inl e)
                             | Some (Inr groups) \<Rightarrow>
                                 (let wholeBuf = wholeBuf_String (CurrencyGroupSeparator l) groups;
                                      pattern = (if 0 <s Sign m then CurrencyPositivePattern l
                                                 else CurrencyNegativePattern l);
                                      parts = strings_SplitN2 unformatted (CHR ''.'');
                                      formatted =
                                        (if 1 < length parts
                                         then wholeBuf @ CurrencyDecimalSeparator l @ parts ! 1
                                         else wholeBuf);
                                      output = strings_Replace pattern (CHR ''$'') currencySymbol
                                  in Some (m, Inr (strings_Replace output (CHR ''n'') formatted)))))))"

section \<open>Signed 64-bit arithmetic\<close>

text \<open>
  The signed value of a sum or a difference of two words is the sum or the difference of
  the signed values, moved back into the 64-bit range by \<open>2 ^ 64\<close> when it left it.
\<close>

lemma neg64_iff_bit: "(w :: int64) <s 0 \<longleftrightarrow> bit w 63"
  using bit_last_iff [of w] by (simp add: word_sless_alt)

lemma sint64_range: "- 9223372036854775808 \<le> sint (w :: int64) \<and> sint w < 9223372036854775808"
  using sint_ge [of w] sint_lt [of w] by simp

lemma mod_window:
  fixes k b :: int
  assumes "- b \<le> k" "k < 2 * b"
  shows "k mod b = (if k < 0 then k + b else if k < b then k else k - b)"
proof -
  have "k < 0 \<Longrightarrow> (k + b) mod b = k + b"
    using assms by (intro mod_pos_pos_trivial) auto
  moreover have "\<not> k < 0 \<Longrightarrow> k < b \<Longrightarrow> k mod b = k"
    by (intro mod_pos_pos_trivial) auto
  moreover have "\<not> k < b \<Longrightarrow> (k - b) mod b = k - b"
    using assms by (intro mod_pos_pos_trivial) auto
  ultimately show ?thesis
    by (auto simp: mod_diff_right_eq)
qed

lemma sint_add64:
  "sint (x + y :: int64) =
     (let s = sint x + sint y in
      if s < - 9223372036854775808 then s + 18446744073709551616
      else if s < 9223372036854775808 then s else s - 18446744073709551616)"
proof -
  have "sint (x + y) = (sint x + sint y + 9223372036854775808) mod 18446744073709551616 - 9223372036854775808"
    by (simp add: sint_word_add signed_take_bit_eq_take_bit_shift take_bit_eq_mod)
  also have "(sint x + sint y + 9223372036854775808) mod 18446744073709551616 =
     (if sint x + sint y + 9223372036854775808 < 0 then sint x + sint y + 9223372036854775808 + 18446744073709551616
      else if sint x + sint y + 9223372036854775808 < 18446744073709551616 then sint x + sint y + 9223372036854775808
      else sint x + sint y + 9223372036854775808 - 18446744073709551616)"
    using sint64_range [of x] sint64_range [of y] by (intro mod_window) auto
  finally show ?thesis
    by (simp add: Let_def)
qed

lemma sint_sub64:
  "sint (x - y :: int64) =
     (let s = sint x - sint y in
      if s < - 9223372036854775808 then s + 18446744073709551616
      else if s < 9223372036854775808 then s else s - 18446744073709551616)"
proof -
  have "sint (x - y) = (sint x - sint y + 9223372036854775808) mod 18446744073709551616 - 9223372036854775808"
    by (simp add: sint_word_diff signed_take_bit_eq_take_bit_shift take_bit_eq_mod)
  also have "(sint x - sint y + 9223372036854775808) mod 18446744073709551616 =
     (if sint x - sint y + 9223372036854775808 < 0 then sint x - sint y + 9223372036854775808 + 18446744073709551616
      else if sint x - sint y + 9223372036854775808 < 18446744073709551616 then sint x - sint y + 9223372036854775808
      else sint x - sint y + 9223372036854775808 - 18446744073709551616)"
    using sint64_range [of x] sint64_range [of y] by (intro mod_window) auto
  finally show ?thesis
    by (simp add: Let_def)
qed

lemma Add_test_iff:
  "((x + y XOR x) AND (x + y XOR y)) <s (0 :: int64) \<longleftrightarrow> \<not> fits64 (sint x + sint y)"
proof -
  have b: "bit ((x + y XOR x) AND (x + y XOR y)) 63
      \<longleftrightarrow> ((sint (x + y) < 0) \<noteq> (sint x < 0)) \<and> ((sint (x + y) < 0) \<noteq> (sint y < 0))"
    using bit_last_iff [of x] bit_last_iff [of y] bit_last_iff [of "x + y"]
    by (simp add: bit_and_iff bit_xor_iff)
  show ?thesis
    unfolding neg64_iff_bit b fits64_def sint_add64 Let_def
    using sint64_range [of x] sint64_range [of y]
    by (simp; linarith)
qed

lemma Sub_test_iff:
  "((x - y XOR x) AND NOT (x - y XOR y)) <s (0 :: int64) \<longleftrightarrow> \<not> fits64 (sint x - sint y)"
proof -
  have b: "bit ((x - y XOR x) AND NOT (x - y XOR y)) 63
      \<longleftrightarrow> ((sint (x - y) < 0) \<noteq> (sint x < 0)) \<and> \<not> ((sint (x - y) < 0) \<noteq> (sint y < 0))"
    using bit_last_iff [of x] bit_last_iff [of y] bit_last_iff [of "x - y"]
    by (simp add: bit_and_iff bit_xor_iff bit_not_iff)
  show ?thesis
    unfolding neg64_iff_bit b fits64_def sint_sub64 Let_def
    using sint64_range [of x] sint64_range [of y]
    by (simp; linarith)
qed

lemma sint_add64_fits: "fits64 (sint x + sint y) \<Longrightarrow> sint (x + y :: int64) = sint x + sint y"
  by (simp add: sint_add64 fits64_def Let_def)

lemma sint_sub64_fits: "fits64 (sint x - sint y) \<Longrightarrow> sint (x - y :: int64) = sint x - sint y"
  by (simp add: sint_sub64 fits64_def Let_def)

section \<open>Addition and subtraction\<close>

text \<open>
  C5. For all values \<open>a\<close> and \<open>b\<close>: when the sum of the two scaled amounts fits a signed
  64-bit integer, \<open>Add\<close> stores exactly that sum in the receiver and reports nothing; when
  it does not fit, \<open>Add\<close> panics with \<open>ErrMoneyOverflow\<close> and the receiver is what it was
  before the call. The same holds for \<open>Sub\<close> and the difference.
\<close>

theorem Add_Sub_exact_or_overflow:
  "(fits64 (sint (M a) + sint (M b)) \<longrightarrow>
      Add a b = (a\<lparr>M := M a + M b\<rparr>, None) \<and> sint (M a + M b) = sint (M a) + sint (M b))
   \<and> (\<not> fits64 (sint (M a) + sint (M b)) \<longrightarrow> Add a b = (a, Some ErrMoneyOverflow))
   \<and> (fits64 (sint (M a) - sint (M b)) \<longrightarrow>
      Sub a b = (a\<lparr>M := M a - M b\<rparr>, None) \<and> sint (M a - M b) = sint (M a) - sint (M b))
   \<and> (\<not> fits64 (sint (M a) - sint (M b)) \<longrightarrow> Sub a b = (a, Some ErrMoneyOverflow))"
  by (simp add: Add_def Sub_def Let_def Add_test_iff Sub_test_iff sint_add64_fits sint_sub64_fits)

theorem Add_Sub_exact_or_overflow_witness:
  "Add \<lparr>M = 5, C = ''USD''\<rparr> \<lparr>M = 7, C = ''USD''\<rparr> = (\<lparr>M = 12, C = ''USD''\<rparr>, None)
   \<and> Sub \<lparr>M = 5, C = ''USD''\<rparr> \<lparr>M = 7, C = ''USD''\<rparr> = (\<lparr>M = - 2, C = ''USD''\<rparr>, None)
   \<and> Add \<lparr>M = 9223372036854775807, C = ''USD''\<rparr> \<lparr>M = 1, C = ''USD''\<rparr>
        = (\<lparr>M = 9223372036854775807, C = ''USD''\<rparr>, Some ErrMoneyOverflow)
   \<and> Sub \<lparr>M = - 9223372036854775808, C = ''USD''\<rparr> \<lparr>M = 1, C = ''USD''\<rparr>
        = (\<lparr>M = - 9223372036854775808, C = ''USD''\<rparr>, Some ErrMoneyOverflow)"
  using Add_Sub_exact_or_overflow [of "\<lparr>M = 5, C = ''USD''\<rparr>" "\<lparr>M = 7, C = ''USD''\<rparr>"]
    Add_Sub_exact_or_overflow [of "\<lparr>M = 9223372036854775807, C = ''USD''\<rparr>" "\<lparr>M = 1, C = ''USD''\<rparr>"]
    Add_Sub_exact_or_overflow [of "\<lparr>M = - 9223372036854775808, C = ''USD''\<rparr>" "\<lparr>M = 1, C = ''USD''\<rparr>"]
  by (simp add: fits64_def)

text \<open>
  On two objects, subtracting and adding back the same operand is the identity whenever
  the difference fits.
\<close>

lemma Sub_then_Add_values:
  assumes "fits64 (sint (M a) - sint (M b))"
  shows "Sub a b = (a\<lparr>M := M a - M b\<rparr>, None)
    \<and> fits64 (sint (M (fst (Sub a b))) + sint (M b))
    \<and> Add (fst (Sub a b)) b = (a, None)"
proof -
  have s: "Sub a b = (a\<lparr>M := M a - M b\<rparr>, None)"
    using assms by (simp add: Sub_def Let_def Sub_test_iff)
  have e: "sint (M a - M b) + sint (M b) = sint (M a)"
    using assms by (simp add: sint_sub64_fits)
  have f: "fits64 (sint (M a - M b) + sint (M b))"
    unfolding e fits64_def using sint64_range [of "M a"] by simp
  have t: "\<not> ((M a - M b + M b XOR (M a - M b)) AND (M a - M b + M b XOR M b)) <s 0"
    using f by (simp only: Add_test_iff not_not)
  have "Add (a\<lparr>M := M a - M b\<rparr>) b = (a, None)"
    using t by (simp add: Add_def Let_def)
  with s f show ?thesis
    by simp
qed

text \<open>When the operand is the receiver itself, \<open>Sub\<close> leaves zero and \<open>Add\<close> doubles it.\<close>

lemma Sub_self: "Sub a a = (a\<lparr>M := 0\<rparr>, None)"
proof -
  have "fits64 (sint (M a) - sint (M a))"
    by (simp add: fits64_def)
  then show ?thesis
    by (simp add: Sub_def Let_def Sub_test_iff)
qed

lemma Add_zero_self: "M a = 0 \<Longrightarrow> Add a a = (a, None)"
proof -
  assume z: "M a = 0"
  have "fits64 (sint (0 :: int64) + sint (0 :: int64))"
    by (simp add: fits64_def)
  then have "\<not> ((0 + 0 XOR 0) AND (0 + 0 XOR 0)) <s (0 :: int64)"
    by (simp only: Add_test_iff not_not)
  then show ?thesis
    using z by (simp add: Add_def Let_def)
qed

text \<open>
  C6. For two distinct objects at \<open>pa\<close> and \<open>pb\<close> whose difference of scaled amounts fits
  a signed 64-bit integer, \<open>Sub\<close> succeeds, adding the operand back fits as well, and
  \<open>Add\<close> after \<open>Sub\<close> gives back the store as it was: the receiver has the scaled amount
  and the currency code it had. When the operand is the receiver itself both calls
  succeed too, but \<open>Sub\<close> has stored zero in the one object and \<open>Add\<close> adds zero to zero:
  the scaled amount ends at zero.
\<close>

theorem Sub_then_Add_distinct_objects:
  "(pa \<noteq> pb \<and> fits64 (sint (M (h pa)) - sint (M (h pb))) \<longrightarrow>
      Sub_at h pa pb = (h(pa := (h pa)\<lparr>M := M (h pa) - M (h pb)\<rparr>), None)
      \<and> fits64 (sint (M (fst (Sub_at h pa pb) pa)) + sint (M (fst (Sub_at h pa pb) pb)))
      \<and> Add_at (fst (Sub_at h pa pb)) pa pb = (h, None))
   \<and> Sub_at h pa pa = (h(pa := (h pa)\<lparr>M := 0\<rparr>), None)
   \<and> Add_at (fst (Sub_at h pa pa)) pa pa = (h(pa := (h pa)\<lparr>M := 0\<rparr>), None)"
proof -
  have distinct: "Sub_at h pa pb = (h(pa := (h pa)\<lparr>M := M (h pa) - M (h pb)\<rparr>), None)
      \<and> fits64 (sint (M (fst (Sub_at h pa pb) pa)) + sint (M (fst (Sub_at h pa pb) pb)))
      \<and> Add_at (fst (Sub_at h pa pb)) pa pb = (h, None)"
    if ne: "pa \<noteq> pb" and fits: "fits64 (sint (M (h pa)) - sint (M (h pb)))"
  proof -
    note v = Sub_then_Add_values [OF fits]
    have s: "Sub_at h pa pb = (h(pa := (h pa)\<lparr>M := M (h pa) - M (h pb)\<rparr>), None)"
      using v by (simp add: Sub_at_def)
    have "fits64 (sint (M (fst (Sub (h pa) (h pb)))) + sint (M (h pb)))"
      using v by blast
    then have f: "fits64 (sint (M (fst (Sub_at h pa pb) pa)) + sint (M (fst (Sub_at h pa pb) pb)))"
      using ne by (simp add: Sub_at_def)
    from v have v1: "Sub (h pa) (h pb) = ((h pa)\<lparr>M := M (h pa) - M (h pb)\<rparr>, None)"
      by blast
    from v have "Add (fst (Sub (h pa) (h pb))) (h pb) = (h pa, None)"
      by blast
    then have "Add ((h pa)\<lparr>M := M (h pa) - M (h pb)\<rparr>) (h pb) = (h pa, None)"
      unfolding v1 by simp
    then have a: "Add_at (fst (Sub_at h pa pb)) pa pb = (h, None)"
      using ne by (simp add: s Add_at_def)
    from s f a show ?thesis
      by blast
  qed
  have self: "Sub_at h pa pa = (h(pa := (h pa)\<lparr>M := 0\<rparr>), None)"
    by (simp add: Sub_at_def Sub_self)
  have "Add ((h pa)\<lparr>M := 0\<rparr>) ((h pa)\<lparr>M := 0\<rparr>) = ((h pa)\<lparr>M := 0\<rparr>, None)"
    by (rule Add_zero_self) simp
  then have again: "Add_at (fst (Sub_at h pa pa)) pa pa = (h(pa := (h pa)\<lparr>M := 0\<rparr>), None)"
    by (simp add: self Add_at_def)
  from distinct self again show ?thesis
    by blast
qed

theorem Sub_then_Add_distinct_objects_witness:
  "(0 :: nat) \<noteq> 1
   \<and> fits64 (sint (M ((\<lambda>p :: nat. if p = 0 then \<lparr>M = 150, C = ''USD''\<rparr> else \<lparr>M = 275, C = ''EUR''\<rparr>) 0))
        - sint (M ((\<lambda>p :: nat. if p = 0 then \<lparr>M = 150, C = ''USD''\<rparr> else \<lparr>M = 275, C = ''EUR''\<rparr>) 1)))
   \<and> M (fst (Sub_at (\<lambda>p :: nat. if p = 0 then \<lparr>M = 150, C = ''USD''\<rparr> else \<lparr>M = 275, C = ''EUR''\<rparr>) 0 1) 0)
        = - 125
   \<and> Add_at (fst (Sub_at (\<lambda>p :: nat. if p = 0 then \<lparr>M = 150, C = ''USD''\<rparr> else \<lparr>M = 275, C = ''EUR''\<rparr>) 0 1)) 0 1
        = (\<lambda>p :: nat. if p = 0 then \<lparr>M = 150, C = ''USD''\<rparr> else \<lparr>M = 275, C = ''EUR''\<rparr>, None)"
proof -
  have n: "(0 :: nat) \<noteq> 1"
    by simp
  have f: "fits64 (sint (M ((\<lambda>p :: nat. if p = 0 then \<lparr>M = 150, C = ''USD''\<rparr> else \<lparr>M = 275, C = ''EUR''\<rparr>) (0 :: nat)))
        - sint (M ((\<lambda>p :: nat. if p = 0 then \<lparr>M = 150, C = ''USD''\<rparr> else \<lparr>M = 275, C = ''EUR''\<rparr>) (1 :: nat))))"
    by (simp add: fits64_def)
  note t = Sub_then_Add_distinct_objects
    [where pa = 0 and pb = 1
      and h = "\<lambda>p :: nat. if p = 0 then \<lparr>M = 150, C = ''USD''\<rparr> else \<lparr>M = 275, C = ''EUR''\<rparr>"]
  have s: "M (fst (Sub_at (\<lambda>p :: nat. if p = 0 then \<lparr>M = 150, C = ''USD''\<rparr> else \<lparr>M = 275, C = ''EUR''\<rparr>) 0 1) 0)
        = - 125"
    using t n f by simp
  have a: "Add_at (fst (Sub_at (\<lambda>p :: nat. if p = 0 then \<lparr>M = 150, C = ''USD''\<rparr> else \<lparr>M = 275, C = ''EUR''\<rparr>) 0 1)) 0 1
        = (\<lambda>p :: nat. if p = 0 then \<lparr>M = 150, C = ''USD''\<rparr> else \<lparr>M = 275, C = ''EUR''\<rparr>, None)"
    using t n f by blast
  show ?thesis
    by (intro conjI n f s a)
qed

text \<open>
  C6, as the spec words it, is about every pair, also the pair of an object with itself.
  With the one object \<open>150 USD\<close> as receiver and operand, the difference is zero and
  fits, the re-addition of zero to zero fits, neither call panics, and the scaled amount
  ends at zero, not at 150.
\<close>

theorem Sub_then_Add_alias_counterexample:
  "fits64 (sint (M ((\<lambda>p :: nat. \<lparr>M = 150, C = ''USD''\<rparr>) (0 :: nat)))
        - sint (M ((\<lambda>p :: nat. \<lparr>M = 150, C = ''USD''\<rparr>) (0 :: nat))))
   \<and> snd (Sub_at (\<lambda>p :: nat. \<lparr>M = 150, C = ''USD''\<rparr>) 0 0) = None
   \<and> fits64 (sint (M (fst (Sub_at (\<lambda>p :: nat. \<lparr>M = 150, C = ''USD''\<rparr>) 0 0) 0))
        + sint (M (fst (Sub_at (\<lambda>p :: nat. \<lparr>M = 150, C = ''USD''\<rparr>) 0 0) 0)))
   \<and> snd (Add_at (fst (Sub_at (\<lambda>p :: nat. \<lparr>M = 150, C = ''USD''\<rparr>) 0 0)) 0 0) = None
   \<and> M (fst (Add_at (fst (Sub_at (\<lambda>p :: nat. \<lparr>M = 150, C = ''USD''\<rparr>) 0 0)) 0 0) 0) = 0
   \<and> M (fst (Add_at (fst (Sub_at (\<lambda>p :: nat. \<lparr>M = 150, C = ''USD''\<rparr>) 0 0)) 0 0) 0)
        \<noteq> M ((\<lambda>p :: nat. \<lparr>M = 150, C = ''USD''\<rparr>) (0 :: nat))"
proof -
  have s: "Sub_at (\<lambda>p :: nat. \<lparr>M = 150, C = ''USD''\<rparr>) 0 0
      = ((\<lambda>p :: nat. \<lparr>M = 150, C = ''USD''\<rparr>)(0 := \<lparr>M = 0, C = ''USD''\<rparr>), None)"
    by (simp add: Sub_at_def Sub_self)
  have "Add \<lparr>M = 0, C = ''USD''\<rparr> \<lparr>M = 0, C = ''USD''\<rparr> = (\<lparr>M = 0, C = ''USD''\<rparr>, None)"
    by (rule Add_zero_self) simp
  then have a: "Add_at ((\<lambda>p :: nat. \<lparr>M = 150, C = ''USD''\<rparr>)(0 := \<lparr>M = 0, C = ''USD''\<rparr>)) 0 0
      = ((\<lambda>p :: nat. \<lparr>M = 150, C = ''USD''\<rparr>)(0 := \<lparr>M = 0, C = ''USD''\<rparr>), None)"
    by (simp add: Add_at_def)
  show ?thesis
    by (simp add: s a fits64_def)
qed

section \<open>Scale setters\<close>

lemma newDecimal_loop_eq:
  "sint i \<le> sint d \<Longrightarrow> newDecimal_loop i d x = x * 10 ^ nat (sint d - sint i)"
proof (induction i d x rule: newDecimal_loop.induct)
  case (1 i d newDec)
  show ?case
  proof (cases "i <s d")
    case True
    then have lt: "sint i < sint d"
      by (simp add: word_sless_alt)
    have s: "sint (i + 1) = sint i + 1"
      using lt sint64_range [of d] sint64_range [of i] by (simp add: sint_add64 Let_def)
    have n: "nat (sint d - sint i) = Suc (nat (sint d - (sint i + 1)))"
      using lt by simp
    have "newDecimal_loop (i + 1) d (newDec * 10) = newDec * 10 * 10 ^ nat (sint d - sint (i + 1))"
      using "1.IH" [OF True] s lt by simp
    then show ?thesis
      using True by (simp add: s n)
  next
    case False
    with "1.prems" have "sint d = sint i"
      by (simp add: word_sless_alt)
    with False show ?thesis
      by simp
  qed
qed

lemma newDecimal_power:
  assumes "0 <s d" "d \<le>s 18"
  shows "newDecimal d = Inr (10 ^ nat (sint d))"
  using assms newDecimal_loop_eq [of 0 d 1]
  by (simp add: newDecimal_def MAXDEC_def word_sless_alt word_sle_eq)

text \<open>Every power of ten from \<open>10 ^ 1\<close> to \<open>10 ^ 18\<close> is a float: \<^verbatim>\<open>float64(decimal)\<close> is exact.\<close>

lemma float64_of_power10:
  "list_all (\<lambda>k. float64_of_int64 (10 ^ k) = Fin (10 ^ k)) [1..<19]"
  by code_simp

lemma init_globals_eq: "init_globals = \<lparr>DP = 100, DPf = Fin 100\<rparr>"
  by code_simp

text \<open>
  C2. For an exponent from 1 to 18 \<open>SetDecimal\<close> sets both scale variables to exactly
  \<open>10 ^ d\<close>. For the exponent 0 it sets them to 0, not to \<open>10 ^ 0 = 1\<close>: the counter
  \<open>newDec\<close> starts at 0 and becomes 1 only inside the branch \<^verbatim>\<open>d > 0\<close>. The setters by
  currency and by locale do the same for a record with no decimal digits. With a scale
  of 0 the next \<open>String\<close> divides by zero.
\<close>

theorem SetDecimal_scale:
  "(0 <s d \<and> d \<le>s 18 \<longrightarrow>
      SetDecimal d g = (g\<lparr>DPf := Fin (10 ^ nat (sint d)), DP := 10 ^ nat (sint d)\<rparr>, None))
   \<and> SetDecimal 0 g = (g\<lparr>DPf := Fin 0, DP := 0\<rparr>, None)
   \<and> (currency_Get cur = Some c \<and> DecimalDigits c = 0 \<longrightarrow>
        SetDecimalByCurrency currency_Get cur g = (g\<lparr>DPf := Fin 0, DP := 0\<rparr>, None))
   \<and> (locale_Get lce = Some l \<and> CurrencyDecimalDigits l = 0 \<longrightarrow>
        SetDecimalByLocale locale_Get lce g = (g\<lparr>DPf := Fin 0, DP := 0\<rparr>, None))
   \<and> snd (String (fst (SetDecimal 0 g)) m) = Inl RuntimeDivideByZero"
proof -
  have nd: "newDecimal 0 = Inr 0"
    by (simp add: newDecimal_def MAXDEC_def word_sless_alt)
  have f0: "float64_of_int64 0 = Fin 0"
    by (simp add: float64_of_int64_def f64_round_def)
  have zero: "SetDecimal 0 g = (g\<lparr>DPf := Fin 0, DP := 0\<rparr>, None)"
    by (simp add: SetDecimal_def nd f0)
  have cur: "SetDecimalByCurrency currency_Get cur g = (g\<lparr>DPf := Fin 0, DP := 0\<rparr>, None)"
    if "currency_Get cur = Some c" "DecimalDigits c = 0"
    using that by (simp add: SetDecimalByCurrency_def nd f0)
  have lce: "SetDecimalByLocale locale_Get lce g = (g\<lparr>DPf := Fin 0, DP := 0\<rparr>, None)"
    if "locale_Get lce = Some l" "CurrencyDecimalDigits l = 0"
    using that by (simp add: SetDecimalByLocale_def nd f0)
  have panic: "snd (String (fst (SetDecimal 0 g)) m) = Inl RuntimeDivideByZero"
    by (simp add: zero String_def Let_def)
  have pow: "SetDecimal d g = (g\<lparr>DPf := Fin (10 ^ nat (sint d)), DP := 10 ^ nat (sint d)\<rparr>, None)"
    if d: "0 <s d" "d \<le>s 18"
  proof -
    have "nat (sint d) \<in> set [1..<19]"
      using d by (simp add: word_sless_alt word_sle_eq) linarith
    then have "float64_of_int64 (10 ^ nat (sint d)) = Fin (10 ^ nat (sint d))"
      using float64_of_power10 by (simp only: list_all_iff)
    then show ?thesis
      by (simp add: SetDecimal_def newDecimal_power [OF d])
  qed
  from zero cur lce panic pow show ?thesis
    by blast
qed

theorem SetDecimal_scale_witness:
  "SetDecimal 2 init_globals = (\<lparr>DP = 100, DPf = Fin 100\<rparr>, None)
   \<and> SetDecimal 0 init_globals = (\<lparr>DP = 0, DPf = Fin 0\<rparr>, None)
   \<and> SetDecimalByCurrency [''JPY'' \<mapsto> \<lparr>DecimalDigits = 0, Symbol = ''JPY''\<rparr>] ''JPY'' init_globals
        = (\<lparr>DP = 0, DPf = Fin 0\<rparr>, None)
   \<and> SetDecimalByLocale
        [''ja-JP'' \<mapsto> \<lparr>CurrencyCode = ''JPY'', CurrencyDecimalDigits = 0, CurrencyGroupSizes = [3],
           CurrencyGroupSeparator = '','', CurrencyDecimalSeparator = ''.'',
           CurrencyPositivePattern = ''$n'', CurrencyNegativePattern = ''-$n''\<rparr>]
        ''ja-JP'' init_globals
        = (\<lparr>DP = 0, DPf = Fin 0\<rparr>, None)
   \<and> snd (String (fst (SetDecimal 0 init_globals)) \<lparr>M = 150, C = ''USD''\<rparr>) = Inl RuntimeDivideByZero"
proof -
  note t = SetDecimal_scale
    [where d = 2 and g = init_globals and m = "\<lparr>M = 150, C = ''USD''\<rparr>"
      and currency_Get = "[''JPY'' \<mapsto> \<lparr>DecimalDigits = 0, Symbol = ''JPY''\<rparr>]"
      and cur = "''JPY''" and c = "\<lparr>DecimalDigits = 0, Symbol = ''JPY''\<rparr>"
      and locale_Get = "[''ja-JP'' \<mapsto> \<lparr>CurrencyCode = ''JPY'', CurrencyDecimalDigits = 0,
           CurrencyGroupSizes = [3], CurrencyGroupSeparator = '','', CurrencyDecimalSeparator = ''.'',
           CurrencyPositivePattern = ''$n'', CurrencyNegativePattern = ''-$n''\<rparr>]"
      and lce = "''ja-JP''"
      and l = "\<lparr>CurrencyCode = ''JPY'', CurrencyDecimalDigits = 0,
           CurrencyGroupSizes = [3], CurrencyGroupSeparator = '','', CurrencyDecimalSeparator = ''.'',
           CurrencyPositivePattern = ''$n'', CurrencyNegativePattern = ''-$n''\<rparr>"]
  have a: "SetDecimal 2 init_globals = (\<lparr>DP = 100, DPf = Fin 100\<rparr>, None)"
    using t by (simp add: init_globals_eq word_sless_alt word_sle_eq)
  have b: "SetDecimal 0 init_globals = (\<lparr>DP = 0, DPf = Fin 0\<rparr>, None)"
    using t by (simp add: init_globals_eq)
  have c: "SetDecimalByCurrency [''JPY'' \<mapsto> \<lparr>DecimalDigits = 0, Symbol = ''JPY''\<rparr>] ''JPY'' init_globals
      = (\<lparr>DP = 0, DPf = Fin 0\<rparr>, None)"
    using t by (simp add: init_globals_eq)
  have d: "SetDecimalByLocale
        [''ja-JP'' \<mapsto> \<lparr>CurrencyCode = ''JPY'', CurrencyDecimalDigits = 0, CurrencyGroupSizes = [3],
           CurrencyGroupSeparator = '','', CurrencyDecimalSeparator = ''.'',
           CurrencyPositivePattern = ''$n'', CurrencyNegativePattern = ''-$n''\<rparr>]
        ''ja-JP'' init_globals
        = (\<lparr>DP = 0, DPf = Fin 0\<rparr>, None)"
    using t by (simp add: init_globals_eq)
  have e: "snd (String (fst (SetDecimal 0 init_globals)) \<lparr>M = 150, C = ''USD''\<rparr>)
      = Inl RuntimeDivideByZero"
    using t by blast
  show ?thesis
    by (intro conjI a b c d e)
qed

text \<open>
  C3. A negative exponent makes \<open>SetDecimal\<close> panic with the error the package raises for
  it, \<open>ErrMoneyDivideByZero\<close> (the spec's InvalidScaleError), and an exponent above 18
  with \<open>ErrMoneyDecimalPlacesTooLarge\<close> (the spec's ScaleTooLargeError). In both cases the
  scale variables are what they were before the call. The setters by currency and by
  locale behave the same on the decimal digits of the record they find.
\<close>

theorem SetDecimal_rejects:
  "(d <s 0 \<longrightarrow> SetDecimal d g = (g, Some ErrMoneyDivideByZero))
   \<and> (18 <s d \<longrightarrow> SetDecimal d g = (g, Some ErrMoneyDecimalPlacesTooLarge))
   \<and> (currency_Get cur = Some c \<and> DecimalDigits c <s 0 \<longrightarrow>
        SetDecimalByCurrency currency_Get cur g = (g, Some ErrMoneyDivideByZero))
   \<and> (currency_Get cur = Some c \<and> 18 <s DecimalDigits c \<longrightarrow>
        SetDecimalByCurrency currency_Get cur g = (g, Some ErrMoneyDecimalPlacesTooLarge))
   \<and> (locale_Get lce = Some l \<and> CurrencyDecimalDigits l <s 0 \<longrightarrow>
        SetDecimalByLocale locale_Get lce g = (g, Some ErrMoneyDivideByZero))
   \<and> (locale_Get lce = Some l \<and> 18 <s CurrencyDecimalDigits l \<longrightarrow>
        SetDecimalByLocale locale_Get lce g = (g, Some ErrMoneyDecimalPlacesTooLarge))"
proof -
  have neg: "newDecimal k = Inl ErrMoneyDivideByZero" if "k <s 0" for k
    using that by (simp add: newDecimal_def)
  have big: "newDecimal k = Inl ErrMoneyDecimalPlacesTooLarge" if "18 <s k" for k
    using that by (auto simp add: newDecimal_def MAXDEC_def word_sless_alt)
  show ?thesis
    by (auto simp add: SetDecimal_def SetDecimalByCurrency_def SetDecimalByLocale_def neg big)
qed

theorem SetDecimal_rejects_witness:
  "fst (SetDecimal 2 init_globals) = \<lparr>DP = 100, DPf = Fin 100\<rparr>
   \<and> SetDecimal (- 1) (fst (SetDecimal 2 init_globals))
        = (\<lparr>DP = 100, DPf = Fin 100\<rparr>, Some ErrMoneyDivideByZero)
   \<and> SetDecimal 19 (fst (SetDecimal 2 init_globals))
        = (\<lparr>DP = 100, DPf = Fin 100\<rparr>, Some ErrMoneyDecimalPlacesTooLarge)"
proof -
  have g: "fst (SetDecimal 2 init_globals) = \<lparr>DP = 100, DPf = Fin 100\<rparr>"
    by code_simp
  show ?thesis
    using SetDecimal_rejects [where d = "- 1" and g = "\<lparr>DP = 100, DPf = Fin 100\<rparr>"]
      SetDecimal_rejects [where d = 19 and g = "\<lparr>DP = 100, DPf = Fin 100\<rparr>"]
    by (simp add: g word_sless_alt)
qed

text \<open>
  C10. When the currency directory has no entry for the code, \<open>SetDecimalByCurrency\<close>
  leaves the scale variables as they were and raises nothing; so does
  \<open>SetDecimalByLocale\<close> when the locale directory has no entry for the identifier.
\<close>

theorem SetDecimal_unknown_key:
  "(currency_Get cur = None \<longrightarrow> SetDecimalByCurrency currency_Get cur g = (g, None))
   \<and> (locale_Get lce = None \<longrightarrow> SetDecimalByLocale locale_Get lce g = (g, None))"
  by (simp add: SetDecimalByCurrency_def SetDecimalByLocale_def)

theorem SetDecimal_unknown_key_witness:
  "SetDecimalByCurrency [''USD'' \<mapsto> \<lparr>DecimalDigits = 3, Symbol = ''$''\<rparr>] ''XYZ'' init_globals
       = (init_globals, None)
   \<and> SetDecimalByLocale Map.empty ''xx-XX'' init_globals = (init_globals, None)"
  using SetDecimal_unknown_key [of "[''USD'' \<mapsto> \<lparr>DecimalDigits = 3, Symbol = ''$''\<rparr>]"
      "''XYZ''" init_globals Map.empty "''xx-XX''"]
  by simp

section \<open>Rounding\<close>

text \<open>
  The rounding of the model on values whose binary64 representation is well known: the
  floats nearest to \<open>0.1\<close> and to \<open>1/3\<close>, ties going to the even significand above
  \<open>2 ^ 53\<close>, and the two ends of the \<^verbatim>\<open>int64\<close> range.
\<close>

lemma f64_round_known_values:
  "f64_round (1 / 10) = Fin (3602879701896397 / 36028797018963968)"
  "f64_round (1 / 3) = Fin (6004799503160661 / 18014398509481984)"
  "f64_round (2 ^ 53 + 1) = Fin (2 ^ 53)"
  "f64_round (2 ^ 53 + 3) = Fin (2 ^ 53 + 4)"
  "f64_round (- (2 ^ 63)) = Fin (- (2 ^ 63))"
  "f64_round (2 ^ 63 - 1) = Fin (2 ^ 63)"
  by code_simp+

lemma Round_eq: "Round = Fin (1 / 2)"
  by code_simp

lemma Roundn_eq: "Roundn = Fin (- (1 / 2))"
  by code_simp

lemma Setf_1235_int:
  "int64_of_float64 (f64_mul (f64_round (- 1235 / 1000)) (DPf init_globals)) = Some (- 123)"
  by code_simp

lemma Setf_1235_Rnd:
  "Rnd (- 123) (Setf_trunc False init_globals (f64_round (- 1235 / 1000)) (- 123)) = - 124"
  "Rnd (- 123) (Setf_trunc True init_globals (f64_round (- 1235 / 1000)) (- 123)) = - 124"
  by code_simp+

lemma Rnd_Fin: "Rnd r (Fin t) = (if 1 / 2 \<le> t then r + 1 else if t < - (1 / 2) then r - 1 else r)"
  by (auto simp add: Rnd_def Round_eq Roundn_eq f64_le_def)

lemma Setf_tie:
  "Setf False init_globals (f64_round (- 1 / 8)) \<lparr>M = 0, C = ''USD''\<rparr> = Inr \<lparr>M = - 12, C = ''USD''\<rparr>"
  "Setf True init_globals (f64_round (- 1 / 8)) \<lparr>M = 0, C = ''USD''\<rparr> = Inr \<lparr>M = - 12, C = ''USD''\<rparr>"
  "Setf False init_globals (f64_round (1 / 8)) \<lparr>M = 0, C = ''USD''\<rparr> = Inr \<lparr>M = 13, C = ''USD''\<rparr>"
  "Setf True init_globals (f64_round (1 / 8)) \<lparr>M = 0, C = ''USD''\<rparr> = Inr \<lparr>M = 13, C = ''USD''\<rparr>"
  by code_simp+

lemma Div_tie:
  "Div init_globals \<lparr>M = - 1, C = ''USD''\<rparr> \<lparr>M = 8, C = ''USD''\<rparr> = Inr \<lparr>M = - 12, C = ''USD''\<rparr>"
  "Div init_globals \<lparr>M = 1, C = ''USD''\<rparr> \<lparr>M = 8, C = ''USD''\<rparr> = Inr \<lparr>M = 13, C = ''USD''\<rparr>"
  by code_simp+

lemma Mulf_tie:
  "Mulf init_globals (f64_round (- 1 / 2)) \<lparr>M = 25, C = ''USD''\<rparr> = Inr \<lparr>M = - 12, C = ''USD''\<rparr>"
  "Mulf init_globals (f64_round (1 / 2)) \<lparr>M = 25, C = ''USD''\<rparr> = Inr \<lparr>M = 13, C = ''USD''\<rparr>"
  by code_simp+

text \<open>
  C1. \<open>Rnd\<close> rounds a half towards plus infinity, as its comment says: for a finite
  remainder \<open>t\<close> it increments \<open>r\<close> when \<open>t \<ge> 1/2\<close>, decrements it when \<open>t < - 1/2\<close>, and
  leaves it alone otherwise, also at \<open>t = - 1/2\<close>. \<open>Setf\<close>, \<open>Div\<close> and \<open>Mulf\<close> all pass through
  it: at a remainder of exactly a half each of them rounds the positive value up and
  leaves the negative one truncated. \<open>Setf\<close> of the float nearest to \<open>-1.235\<close>, at two
  decimal places, stores \<open>-124\<close> whether or not the product and the difference are fused:
  the float product is below \<open>-123.5\<close>.
\<close>

theorem Rnd_half_towards_plus_infinity:
  "Rnd r (Fin t) = (if 1 / 2 \<le> t then r + 1 else if t < - (1 / 2) then r - 1 else r)
   \<and> Rnd r PInf = r + 1 \<and> Rnd r NInf = r - 1 \<and> Rnd r NaN = r
   \<and> Setf fused init_globals (f64_round (- 1235 / 1000)) m = Inr (m\<lparr>M := - 124\<rparr>)
   \<and> Setf fused init_globals (f64_round (1 / 8)) \<lparr>M = 0, C = ''USD''\<rparr> = Inr \<lparr>M = 13, C = ''USD''\<rparr>
   \<and> Setf fused init_globals (f64_round (- 1 / 8)) \<lparr>M = 0, C = ''USD''\<rparr> = Inr \<lparr>M = - 12, C = ''USD''\<rparr>
   \<and> Div init_globals \<lparr>M = 1, C = ''USD''\<rparr> \<lparr>M = 8, C = ''USD''\<rparr> = Inr \<lparr>M = 13, C = ''USD''\<rparr>
   \<and> Div init_globals \<lparr>M = - 1, C = ''USD''\<rparr> \<lparr>M = 8, C = ''USD''\<rparr> = Inr \<lparr>M = - 12, C = ''USD''\<rparr>
   \<and> Mulf init_globals (f64_round (1 / 2)) \<lparr>M = 25, C = ''USD''\<rparr> = Inr \<lparr>M = 13, C = ''USD''\<rparr>
   \<and> Mulf init_globals (f64_round (- 1 / 2)) \<lparr>M = 25, C = ''USD''\<rparr> = Inr \<lparr>M = - 12, C = ''USD''\<rparr>"
proof -
  have inf: "Rnd r PInf = r + 1 \<and> Rnd r NInf = r - 1 \<and> Rnd r NaN = r"
    by (simp add: Rnd_def Round_eq Roundn_eq f64_le_def)
  have "Setf fused init_globals (f64_round (- 1235 / 1000)) m = Inr (Set (- 124) m)"
    by (cases fused) (simp_all only: Setf_def Setf_1235_int Setf_1235_Rnd option.case)
  then have setf: "Setf fused init_globals (f64_round (- 1235 / 1000)) m = Inr (m\<lparr>M := - 124\<rparr>)"
    by (simp only: Set_def)
  have up: "Setf fused init_globals (f64_round (1 / 8)) \<lparr>M = 0, C = ''USD''\<rparr> = Inr \<lparr>M = 13, C = ''USD''\<rparr>"
    by (cases fused) (simp_all only: Setf_tie)
  have down: "Setf fused init_globals (f64_round (- 1 / 8)) \<lparr>M = 0, C = ''USD''\<rparr> = Inr \<lparr>M = - 12, C = ''USD''\<rparr>"
    by (cases fused) (simp_all only: Setf_tie)
  show ?thesis
    by (intro conjI Rnd_Fin setf up down Div_tie Mulf_tie) (simp_all only: inf)
qed

text \<open>
  C1, as the spec words it, asks for a decrement at \<open>trunc \<le> -0.5\<close>. At \<open>trunc = -0.5\<close>
  and \<open>r = -12\<close> the result is \<open>-12\<close>, not \<open>-13\<close>; \<open>Setf\<close> of \<open>-0.125\<close> at two decimal
  places gets there.
\<close>

theorem Rnd_tie_counterexample:
  "f64_le (Fin (- (1 / 2))) (Fin (- (5 / 10)))
   \<and> Rnd (- 12) (Fin (- (1 / 2))) = - 12
   \<and> Rnd (- 12) (Fin (- (1 / 2))) \<noteq> - 12 - 1
   \<and> Setf False init_globals (f64_round (- 1 / 8)) \<lparr>M = 0, C = ''USD''\<rparr> = Inr \<lparr>M = - 12, C = ''USD''\<rparr>"
proof -
  have "f64_le (Fin (- (1 / 2))) (Fin (- (5 / 10)))"
    by (simp add: f64_le_def)
  moreover have "Rnd (- 12) (Fin (- (1 / 2))) = - 12"
    by (simp add: Rnd_Fin)
  moreover have "Rnd (- 12) (Fin (- (1 / 2))) \<noteq> - 12 - 1"
    by (simp add: Rnd_Fin)
  ultimately show ?thesis
    using Setf_tie(1) by (intro conjI)
qed

section \<open>String\<close>

lemma sint_neg64:
  "sint (- w :: int64) = (if sint w = - 9223372036854775808 then - 9223372036854775808 else - sint w)"
  using sint_sub64 [of 0 w] sint64_range [of w] by (simp add: Let_def)

lemma min64_iff: "sint (w :: int64) = - 9223372036854775808 \<longleftrightarrow> w = - 9223372036854775808"
proof
  assume "sint w = - 9223372036854775808"
  then have "sint w = sint (- 9223372036854775808 :: int64)"
    by simp
  then show "w = - 9223372036854775808"
    by (rule signed_word_eqI)
qed simp

lemma Sign_pos_iff: "0 <s Sign m \<longleftrightarrow> \<not> M m <s 0"
  by (simp add: Sign_def word_sless_alt)

lemma Abs_nonneg: "\<not> M m <s 0 \<Longrightarrow> Abs m = m"
  by (simp add: Abs_def)

lemma Abs_neg: "M m <s 0 \<Longrightarrow> Abs m = m\<lparr>M := - M m\<rparr>"
  by (auto simp add: Abs_def Neg_def)

lemma Abs_Abs: "Abs (Abs m) = Abs m"
proof (cases "M m <s 0")
  case True
  show ?thesis
  proof (cases "M m = - 9223372036854775808")
    case True
    then show ?thesis
      by (simp add: Abs_def Neg_def word_sless_alt)
  next
    case False
    then have "sint (- M m) = - sint (M m)"
      by (simp add: sint_neg64 min64_iff)
    with \<open>M m <s 0\<close> have "\<not> (- M m) <s 0"
      by (simp add: word_sless_alt)
    with \<open>M m <s 0\<close> show ?thesis
      by (simp add: Abs_neg Abs_nonneg)
  qed
next
  case False
  then show ?thesis
    by (simp add: Abs_nonneg)
qed

lemma String_receiver: "fst (String g m) = Abs m"
  by (simp add: String_def Sign_pos_iff Let_def Abs_Abs Abs_nonneg)

text \<open>
  What \<open>String\<close> does to its receiver, at every scale and also when it panics: a negative
  amount other than \<open>-2 ^ 63\<close> becomes its absolute value, and any other amount is left
  as it is.
\<close>

lemma String_receiver_cases:
  "(sint (M m) < 0 \<and> sint (M m) \<noteq> - (2 ^ 63) \<longrightarrow>
      sint (M (fst (String g m))) = \<bar>sint (M m)\<bar> \<and> C (fst (String g m)) = C m)
   \<and> (sint (M m) = - (2 ^ 63) \<longrightarrow> fst (String g m) = m)
   \<and> (0 \<le> sint (M m) \<longrightarrow> fst (String g m) = m)"
  by (auto simp add: String_receiver Abs_def Neg_def word_sless_alt sint_neg64 min64_iff)

text \<open>
  C9. On \<open>-150\<close> at the initial scale \<open>String\<close> does what the claim says: the text is
  \<open>-1.50 USD\<close> and the receiver is left at 150. On \<open>-2 ^ 63\<close> it does not: \<open>Abs\<close> negates
  with \<^verbatim>\<open>M *= -1\<close>, which wraps around, so \<open>Abs\<close> returns the negative amount it was
  given, the receiver is still \<open>-2 ^ 63\<close> after the call, and the text is
  \<open>--92233720368547758.-8 USD\<close>. \<open>Add\<close> on the same amount detects the overflow.
\<close>

theorem String_min_int64:
  "String init_globals \<lparr>M = - 150, C = ''USD''\<rparr> = (\<lparr>M = 150, C = ''USD''\<rparr>, Inr ''-1.50 USD'')
   \<and> Abs \<lparr>M = - 9223372036854775808, C = ''USD''\<rparr> = \<lparr>M = - 9223372036854775808, C = ''USD''\<rparr>
   \<and> String init_globals \<lparr>M = - 9223372036854775808, C = ''USD''\<rparr>
        = (\<lparr>M = - 9223372036854775808, C = ''USD''\<rparr>, Inr ''--92233720368547758.-8 USD'')
   \<and> sint (M (fst (String init_globals \<lparr>M = - 9223372036854775808, C = ''USD''\<rparr>))) < 0
   \<and> Add \<lparr>M = - 9223372036854775808, C = ''USD''\<rparr> \<lparr>M = - 1, C = ''USD''\<rparr>
        = (\<lparr>M = - 9223372036854775808, C = ''USD''\<rparr>, Some ErrMoneyOverflow)"
  by code_simp

text \<open>
  C4. \<open>String\<close> writes the remainder \<^verbatim>\<open>M % DP\<close> with \<^verbatim>\<open>%02d\<close>, a minimum width of two.
  At the initial scale one unit and a half reads \<open>1.50 XXX\<close>. After \<open>SetDecimal 4\<close> the
  same amount is 15000, its remainder is 5000 and the text has four fractional digits;
  the remainder of 10500 is 500 and the text has three.
\<close>

theorem String_scale_four:
  "String init_globals \<lparr>M = 150, C = ''XXX''\<rparr> = (\<lparr>M = 150, C = ''XXX''\<rparr>, Inr ''1.50 XXX'')
   \<and> SetDecimal 4 init_globals = (\<lparr>DP = 10000, DPf = Fin 10000\<rparr>, None)
   \<and> String \<lparr>DP = 10000, DPf = Fin 10000\<rparr> \<lparr>M = 15000, C = ''XXX''\<rparr>
        = (\<lparr>M = 15000, C = ''XXX''\<rparr>, Inr ''1.5000 XXX'')
   \<and> String \<lparr>DP = 10000, DPf = Fin 10000\<rparr> \<lparr>M = 10500, C = ''XXX''\<rparr>
        = (\<lparr>M = 10500, C = ''XXX''\<rparr>, Inr ''1.500 XXX'')"
  by code_simp

section \<open>Format\<close>

lemma group_loop_1234567:
  "group_loop 1234567 1000 3 [] = Some (Inr [''567'', ''234'', ''1''])"
  by code_simp

lemma quo_rem_123456789:
  "quo64 123456789 100 = 1234567" "rem64 123456789 100 = 89"
  by code_simp+

lemma fmt_1234567_89:
  "fmt_d 1234567 = ''1234567''" "fmt_0d 2 89 = ''89''"
  by code_simp+

lemma wholeBuf_String_3:
  "wholeBuf_String sep [a, b, c] = c @ sep @ b @ sep @ a"
  by (simp add: wholeBuf_String_def upt_rec)

text \<open>
  C7. With a locale record of group size 3, group separator \<open>,\<close>, decimal separator \<open>.\<close>,
  patterns \<open>$n\<close> and \<open>-$n\<close> and two decimal digits, and the symbol \<open>$\<close> (from the currency
  record, or the currency code itself when there is none), \<open>Format\<close> renders 123456789 as
  \<open>$1,234,567.89\<close> and -123456789 as \<open>-$1,234,567.89\<close>, and leaves the receiver alone.
\<close>

theorem Format_grouped_example:
  assumes "locale_Get loc = Some l"
    and "CurrencyDecimalDigits l = 2"
    and "CurrencyGroupSizes l = [3]"
    and "CurrencyGroupSeparator l = '',''"
    and "CurrencyDecimalSeparator l = ''.''"
    and "CurrencyPositivePattern l = ''$n''"
    and "CurrencyNegativePattern l = ''-$n''"
    and "(case currency_Get c of Some currency \<Rightarrow> Symbol currency | None \<Rightarrow> c) = ''$''"
  shows "Format locale_Get currency_Get g loc \<lparr>M = 123456789, C = c\<rparr>
           = Some (\<lparr>M = 123456789, C = c\<rparr>, Inr ''$1,234,567.89'')
       \<and> Format locale_Get currency_Get g loc \<lparr>M = - 123456789, C = c\<rparr>
           = Some (\<lparr>M = - 123456789, C = c\<rparr>, Inr ''-$1,234,567.89'')"
proof -
  have sym: "(case currency_Get c of
        Some currency \<Rightarrow> Symbol currency | None \<Rightarrow> C \<lparr>M = k, C = c\<rparr>) = ''$''" for k
    using assms(8) by (simp split: option.splits)
  show ?thesis
    using assms(1-7)
    by (simp add: Format_def Let_def sym pow10_int64_def Sign_def Value_def word_sless_alt
        group_loop_1234567 quo_rem_123456789 fmt_1234567_89 wholeBuf_String_3
        strings_SplitN2_def strings_Replace_def nth_Cons')
qed

theorem Format_grouped_example_witness:
  "Format
     [''en-US'' \<mapsto> \<lparr>CurrencyCode = ''USD'', CurrencyDecimalDigits = 2, CurrencyGroupSizes = [3],
        CurrencyGroupSeparator = '','', CurrencyDecimalSeparator = ''.'',
        CurrencyPositivePattern = ''$n'', CurrencyNegativePattern = ''-$n''\<rparr>]
     [''USD'' \<mapsto> \<lparr>DecimalDigits = 2, Symbol = ''$''\<rparr>]
     init_globals ''en-US'' \<lparr>M = 123456789, C = ''USD''\<rparr>
     = Some (\<lparr>M = 123456789, C = ''USD''\<rparr>, Inr ''$1,234,567.89'')
   \<and> Format
     [''en-US'' \<mapsto> \<lparr>CurrencyCode = ''USD'', CurrencyDecimalDigits = 2, CurrencyGroupSizes = [3],
        CurrencyGroupSeparator = '','', CurrencyDecimalSeparator = ''.'',
        CurrencyPositivePattern = ''$n'', CurrencyNegativePattern = ''-$n''\<rparr>]
     [''USD'' \<mapsto> \<lparr>DecimalDigits = 2, Symbol = ''$''\<rparr>]
     init_globals ''en-US'' \<lparr>M = - 123456789, C = ''USD''\<rparr>
     = Some (\<lparr>M = - 123456789, C = ''USD''\<rparr>, Inr ''-$1,234,567.89'')"
  using Format_grouped_example
    [where locale_Get = "[''en-US'' \<mapsto> \<lparr>CurrencyCode = ''USD'', CurrencyDecimalDigits = 2,
        CurrencyGroupSizes = [3], CurrencyGroupSeparator = '','', CurrencyDecimalSeparator = ''.'',
        CurrencyPositivePattern = ''$n'', CurrencyNegativePattern = ''-$n''\<rparr>]"
      and loc = "''en-US''"
      and l = "\<lparr>CurrencyCode = ''USD'', CurrencyDecimalDigits = 2,
        CurrencyGroupSizes = [3], CurrencyGroupSeparator = '','', CurrencyDecimalSeparator = ''.'',
        CurrencyPositivePattern = ''$n'', CurrencyNegativePattern = ''-$n''\<rparr>"
      and currency_Get = "[''USD'' \<mapsto> \<lparr>DecimalDigits = 2, Symbol = ''$''\<rparr>]"
      and c = "''USD''" and g = init_globals]
  by simp

text \<open>
  C8. \<open>Format\<close> substitutes in two passes: first \<open>$\<close> by the symbol, then \<open>n\<close> by the number,
  in the text the first pass produced. An \<open>n\<close> of the symbol is replaced as well: with the
  symbol \<open>kn\<close> and the pattern \<open>n $\<close>, the amount 100 at two decimal digits comes out as
  \<open>1,00 k1,00\<close>.
\<close>

theorem Format_symbol_with_n:
  "Format
     [''hr-HR'' \<mapsto> \<lparr>CurrencyCode = ''HRK'', CurrencyDecimalDigits = 2, CurrencyGroupSizes = [3],
        CurrencyGroupSeparator = ''.'', CurrencyDecimalSeparator = '','',
        CurrencyPositivePattern = ''n $'', CurrencyNegativePattern = ''-n $''\<rparr>]
     [''HRK'' \<mapsto> \<lparr>DecimalDigits = 2, Symbol = ''kn''\<rparr>]
     init_globals ''hr-HR'' \<lparr>M = 100, C = ''HRK''\<rparr>
     = Some (\<lparr>M = 100, C = ''HRK''\<rparr>, Inr ''1,00 k1,00'')"
  by code_simp

end
